theory Spec2Isabelle
  imports Complex_Main "HOL-Library.Sublist"
begin

section \<open>Conventions\<close>

text \<open>
  The repository holds three Python scripts that prepare a response vector \<open>y\<close>, a
  background matrix \<open>E\<close>, a fixed-effect matrix \<open>M\<close> and a genotype vector \<open>g\<close> and hand
  them to the external \<^verbatim>\<open>StructLMM\<close> engine: the command-line script
  \<^verbatim>\<open>gxg-structlmm-script.py\<close> and the two notebook exports \<^verbatim>\<open>WorkingLMMscript.py\<close> and
  \<^verbatim>\<open>Method2.py\<close>.

  \<^item> A two-dimensional numpy array is a list of rows; \<open>A.shape[0]\<close> is \<open>length A\<close>.
    An array without rows has no entries, so nothing that is computed per entry
    depends on its column count.
  \<^item> float64 arithmetic is idealised as arithmetic on \<open>real\<close>: rounding, overflow
    and the order of numpy's summation are not modelled. The theory therefore settles
    which operations the scripts compose, in which order and on which arrays; it
    settles no statement about the rounded values themselves. Arrays read from the
    input files hold finite numbers.
  \<^item> numpy's true division does not raise on a zero divisor, it yields \<open>nan\<close> or
    \<open>\<plusminus>inf\<close>; the result of a division is therefore an \<open>npfloat\<close>.
  \<^item> \<^verbatim>\<open>sys.exit(1)\<close> and an uncaught exception are values of the type \<open>error\<close>.
  \<^item> The engine is a parameter; the calls made to it are recorded in a log.
  File reading, argument parsing and printing are outside the model.
\<close>

section \<open>Arrays and numerics\<close>

datatype npfloat = Fin real | NaN | PInf | NInf

definition np_div :: "real \<Rightarrow> real \<Rightarrow> npfloat" where
  \<comment> \<open>\<^verbatim>\<open>x / d\<close> on float64 values.\<close>
  "np_div x d =
     (if d \<noteq> 0 then Fin (x / d)
      else if x = 0 then NaN else if 0 < x then PInf else NInf)"

fun fdiv :: "npfloat \<Rightarrow> real \<Rightarrow> npfloat" where
  \<comment> \<open>The same division when the dividend may already be \<open>nan\<close> or \<open>\<plusminus>inf\<close>.\<close>
  "fdiv (Fin x) d = np_div x d"
| "fdiv NaN d = NaN"
| "fdiv PInf d = (if d < 0 then NInf else PInf)"
| "fdiv NInf d = (if d < 0 then PInf else NInf)"

definition shape1 :: "'a list list \<Rightarrow> nat" where
  \<comment> \<open>\<^verbatim>\<open>A.shape[1]\<close> of an array that has at least one row.\<close>
  "shape1 A = (case A of [] \<Rightarrow> 0 | r # _ \<Rightarrow> length r)"

definition column :: "'a list list \<Rightarrow> nat \<Rightarrow> 'a list" where
  \<comment> \<open>\<^verbatim>\<open>A[:, j]\<close>.\<close>
  "column A j = map (\<lambda>r. r ! j) A"

definition np_mean :: "real list \<Rightarrow> real" where
  \<comment> \<open>\<^verbatim>\<open>np.mean\<close>. On an empty array numpy yields \<open>nan\<close>; the value is only used
      per entry, so it is never used there.\<close>
  "np_mean xs = sum_list xs / real (length xs)"

definition np_std :: "real list \<Rightarrow> real" where
  \<comment> \<open>\<^verbatim>\<open>np.std\<close> with its default \<open>ddof=0\<close>: the population standard deviation
      \<open>sqrt(mean(abs(x - x.mean())**2))\<close>.\<close>
  "np_std xs = sqrt (np_mean (map (\<lambda>x. (x - np_mean xs)\<^sup>2) xs))"

definition column_means :: "real list list \<Rightarrow> real list" where
  \<comment> \<open>\<^verbatim>\<open>data.mean(axis=0)\<close>\<close>
  "column_means data = map (\<lambda>j. np_mean (column data j)) [0..<shape1 data]"

definition column_stds :: "real list list \<Rightarrow> real list" where
  \<comment> \<open>\<^verbatim>\<open>data.std(axis=0)\<close>\<close>
  "column_stds data = map (\<lambda>j. np_std (column data j)) [0..<shape1 data]"

definition zero_to_one :: "real list \<Rightarrow> real list" where
  \<comment> \<open>\<^verbatim>\<open>stds[stds == 0] = 1.0\<close>\<close>
  "zero_to_one stds = map (\<lambda>s. if s = 0 then 1 else s) stds"

section \<open>Standardizer\<close>

text \<open>
  \<^verbatim>\<open>standardize_columns\<close> of \<^verbatim>\<open>gxg-structlmm-script.py\<close> (lines 11-16) and of
  \<^verbatim>\<open>WorkingLMMscript.py\<close> (lines 48-60); \<open>(data - means) / stds\<close> broadcasts the two
  vectors along the rows.
\<close>

definition standardize_columns :: "real list list \<Rightarrow> npfloat list list" where
  "standardize_columns data =
     (let means = column_means data;
          stds = column_stds data;
          stds = zero_to_one stds
      in map (\<lambda>row. map (\<lambda>j. np_div (row ! j - means ! j) (stds ! j)) [0..<shape1 data])
           data)"

definition scale_columns :: "npfloat list list \<Rightarrow> npfloat list list" where
  \<comment> \<open>\<^verbatim>\<open>E = E / np.sqrt(E.shape[1])\<close>\<close>
  "scale_columns E = map (map (\<lambda>v. fdiv v (sqrt (real (shape1 E))))) E"

definition standardize_phenotype :: "real list \<Rightarrow> npfloat list" where
  \<comment> \<open>\<^verbatim>\<open>gxg-structlmm-script.py\<close>, lines 112-117:
      \<^verbatim>\<open>orig_y_mean = np.mean(y); orig_y_std = np.std(y); y = (y - orig_y_mean) / orig_y_std\<close>\<close>
  "standardize_phenotype y =
     (let orig_y_mean = np_mean y;
          orig_y_std = np_std y
      in map (\<lambda>v. np_div (v - orig_y_mean) orig_y_std) y)"

definition working_standardize_y :: "real list \<Rightarrow> npfloat list" where
  \<comment> \<open>\<^verbatim>\<open>WorkingLMMscript.py\<close>, lines 43-44: \<^verbatim>\<open>y=y-np.mean(y); y=y/np.std(y)\<close>\<close>
  "working_standardize_y y =
     (let y1 = map (\<lambda>v. v - np_mean y) y
      in map (\<lambda>v. np_div v (np_std y1)) y1)"

section \<open>Allele Coder\<close>

text \<open>
  \<^verbatim>\<open>ensure_minor_allele_coding\<close> of \<^verbatim>\<open>gxg-structlmm-script.py\<close> (lines 18-33) and of
  \<^verbatim>\<open>WorkingLMMscript.py\<close> (lines 84-104); the two bodies differ only in the messages
  printed. A genotype vector is a one-dimensional integer array, modelled as an
  \<open>int list\<close>: the function only compares entries with 0, 1 and 2 and stores the
  constants 0, 1 and 2, so no arithmetic on entries (and no overflow) is involved.
\<close>

definition np_count :: "int list \<Rightarrow> int \<Rightarrow> nat" where
  \<comment> \<open>\<^verbatim>\<open>np.sum(geno == v)\<close>: the number of entries equal to \<open>v\<close>.\<close>
  "np_count geno v = length (filter (\<lambda>x. x = v) geno)"

definition zeros_like :: "int list \<Rightarrow> int list" where
  \<comment> \<open>\<^verbatim>\<open>np.zeros_like(geno)\<close>: same shape, every entry 0.\<close>
  "zeros_like geno = replicate (length geno) 0"

definition mask_assign :: "int list \<Rightarrow> int list \<Rightarrow> int \<Rightarrow> int \<Rightarrow> int list" where
  \<comment> \<open>\<^verbatim>\<open>flipped[geno == v] = c\<close>: store \<open>c\<close> at the positions where \<open>geno\<close> holds \<open>v\<close>.\<close>
  "mask_assign flipped geno v c = map (\<lambda>(f, x). if x = v then c else f) (zip flipped geno)"

definition ensure_minor_allele_coding :: "int list \<Rightarrow> int list" where
  "ensure_minor_allele_coding genotype_vector =
     (let geno = genotype_vector;
          zeros = np_count geno 0;
          twos = np_count geno 2
      in if twos > zeros then
           (let flipped = zeros_like geno;
                flipped = mask_assign flipped geno 0 2;
                flipped = mask_assign flipped geno 1 1;
                flipped = mask_assign flipped geno 2 0
            in flipped)
         else geno)"

definition remap_spec :: "int \<Rightarrow> int" where
  \<comment> \<open>The remapping in the words of the specification: 0 becomes 2, 2 becomes 0,
      anything else (in particular 1) is left as it is.\<close>
  "remap_spec x = (if x = 0 then 2 else if x = 2 then 0 else x)"

section \<open>Errors, tables and the engine\<close>

datatype error =
    ColumnResolutionError
      \<comment> \<open>"Cannot determine phenotype column", exit 1\<close>
  | ColumnNotFoundError string
      \<comment> \<open>"Phenotype column ... not found in phenotype file", exit 1\<close>
  | SnvColumnsError
      \<comment> \<open>"SNV file must have at least 2 columns", exit 1\<close>
  | DimensionMismatchError nat nat nat nat
      \<comment> \<open>"Inconsistent data sizes: y: .., E: .., M: .., g: ..", exit 1\<close>
  | ModelFittingError
      \<comment> \<open>"Error in StructLMM analysis", exit 1\<close>
  | NumpyValueError
      \<comment> \<open>uncaught \<^verbatim>\<open>ValueError\<close> of \<^verbatim>\<open>np.concatenate\<close>\<close>
  | PandasIndexError
      \<comment> \<open>uncaught \<^verbatim>\<open>IndexError\<close> of \<^verbatim>\<open>iloc\<close>\<close>

record 'a dataframe =
  df_columns :: "string list"
  df_rows :: "'a list list"

fun index_of :: "'a list \<Rightarrow> 'a \<Rightarrow> nat" where
  "index_of [] x = 0"
| "index_of (c # cs) x = (if c = x then 0 else Suc (index_of cs x))"

definition df_column :: "'a dataframe \<Rightarrow> string \<Rightarrow> 'a list" where
  \<comment> \<open>\<^verbatim>\<open>df[name].to_numpy()\<close> for a name among the columns.\<close>
  "df_column df name = column (df_rows df) (index_of (df_columns df) name)"

definition iloc_from1 :: "'a list list \<Rightarrow> 'a list list" where
  \<comment> \<open>\<^verbatim>\<open>df.iloc[:, 1:].to_numpy()\<close>: every column but the first.\<close>
  "iloc_from1 rows = map tl rows"

definition np_ones :: "nat \<Rightarrow> real list list" where
  \<comment> \<open>\<^verbatim>\<open>np.ones((n, 1))\<close>\<close>
  "np_ones n = replicate n [1]"

definition np_concatenate_axis1 :: "'a list list \<Rightarrow> 'a list list \<Rightarrow> error + 'a list list" where
  \<comment> \<open>\<^verbatim>\<open>np.concatenate([A, B], axis=1)\<close>: the row counts must agree.\<close>
  "np_concatenate_axis1 A B =
     (if length A = length B then Inr (map (\<lambda>(a, b). a @ b) (zip A B)) else Inl NumpyValueError)"

datatype engine_call =
    Construct "npfloat list" "npfloat list list" "npfloat list list"
      \<comment> \<open>\<^verbatim>\<open>StructLMM(y, M, E)\<close>\<close>
  | Fit
      \<comment> \<open>\<^verbatim>\<open>lmm.fit()\<close>\<close>
  | Score "int list"
      \<comment> \<open>\<^verbatim>\<open>lmm.score_2dof_inter(g)\<close>\<close>

record engine =
  construct_ok :: "npfloat list \<Rightarrow> npfloat list list \<Rightarrow> npfloat list list \<Rightarrow> bool"
  fit_ok :: "npfloat list \<Rightarrow> npfloat list list \<Rightarrow> npfloat list list \<Rightarrow> bool"
  score :: "npfloat list \<Rightarrow> npfloat list list \<Rightarrow> npfloat list list \<Rightarrow> int list \<Rightarrow> real option"

definition const_engine :: "real \<Rightarrow> engine" where
  \<comment> \<open>An engine that accepts every input and answers the p-value \<open>pv\<close>.\<close>
  "const_engine pv =
     \<lparr>construct_ok = (\<lambda>y M E. True), fit_ok = (\<lambda>y M E. True), score = (\<lambda>y M E g. Some pv)\<rparr>"

record run_state =
  rs_y :: "npfloat list"
  rs_E :: "npfloat list list"
  rs_M :: "npfloat list list"
  rs_g :: "int list"

section \<open>The command-line script\<close>

text \<open>Lines 88-103 of \<^verbatim>\<open>gxg-structlmm-script.py\<close>, with \<open>'phenotype' in col.lower()\<close>.\<close>

definition lower_char :: "char \<Rightarrow> char" where
  \<comment> \<open>\<^verbatim>\<open>str.lower\<close> on one ASCII character. (Outside ASCII no character lowers to one
      of the letters of "phenotype".)\<close>
  "lower_char c =
     (case map_of (zip ''ABCDEFGHIJKLMNOPQRSTUVWXYZ'' ''abcdefghijklmnopqrstuvwxyz'') c of
        Some l \<Rightarrow> l | None \<Rightarrow> c)"

definition lower :: "string \<Rightarrow> string" where
  "lower s = map lower_char s"

fun str_contains :: "string \<Rightarrow> string \<Rightarrow> bool" where
  \<comment> \<open>\<^verbatim>\<open>sub in s\<close>\<close>
  "str_contains sub [] = (sub = [])"
| "str_contains sub (c # cs) = (prefix sub (c # cs) \<or> str_contains sub cs)"

definition guess_phenotype_column :: "string list \<Rightarrow> error + string" where
  \<comment> \<open>Lines 91-103, \<open>cols\<close> is \<open>pheno_df.columns\<close>.\<close>
  "guess_phenotype_column cols =
     (let phenotype_columns = filter (\<lambda>col. str_contains ''phenotype'' (lower col)) cols
      in if phenotype_columns \<noteq> [] then Inr (hd phenotype_columns)
         else if length cols > 1 then Inr (cols ! 1)
         else Inl ColumnResolutionError)"

definition resolve_phenotype_column :: "string option \<Rightarrow> string list \<Rightarrow> error + string" where
  \<comment> \<open>Lines 88-103. \<^verbatim>\<open>if args.phenotype_column:\<close> is false for an absent option and
      for the empty string.\<close>
  "resolve_phenotype_column arg cols =
     (case arg of
        None \<Rightarrow> guess_phenotype_column cols
      | Some name \<Rightarrow> if name \<noteq> [] then Inr name else guess_phenotype_column cols)"

definition create_covariate_matrix :: "nat \<Rightarrow> real list list option \<Rightarrow> error + real list list" where
  \<comment> \<open>Lines 145-153; \<open>n\<close> is \<open>y.shape[0]\<close>, the option is the covariate table when
      \<open>--covariates\<close> was given.\<close>
  "create_covariate_matrix n cov_df =
     (case cov_df of
        Some rows \<Rightarrow>
          (let cov_data = iloc_from1 rows
           in np_concatenate_axis1 (np_ones n) cov_data)
      | None \<Rightarrow> Inr (np_ones n))"

record inputs =
  phenotype_column_arg :: "string option"
  pheno_df :: "real dataframe"
  pcs_E :: "real list list"
  cov_df :: "real list list option"
  snv_df :: "int dataframe"

text \<open>
  Lines 87-164: from the tables read to the four arrays. \<open>pcs_E\<close> is the array
  \<open>pcs_df.to_numpy()\<close> of line 135, after the selection of the PC columns.
\<close>

definition assemble :: "inputs \<Rightarrow> error + run_state" where
  "assemble inp =
     (case resolve_phenotype_column (phenotype_column_arg inp) (df_columns (pheno_df inp)) of
        Inl e \<Rightarrow> Inl e
      | Inr phenotype_column \<Rightarrow>
          if phenotype_column \<notin> set (df_columns (pheno_df inp))
          then Inl (ColumnNotFoundError phenotype_column)
          else
            (let y = df_column (pheno_df inp) phenotype_column;
                 y = standardize_phenotype y;
                 E = pcs_E inp;
                 E = standardize_columns E;
                 E = scale_columns E
             in case create_covariate_matrix (length y) (cov_df inp) of
                  Inl e \<Rightarrow> Inl e
                | Inr M \<Rightarrow>
                    if length (df_columns (snv_df inp)) < 2 then Inl SnvColumnsError
                    else
                      (let g = column (df_rows (snv_df inp)) 1;
                           g = ensure_minor_allele_coding g
                       in Inr \<lparr>rs_y = y, rs_E = E, rs_M = map (map Fin) M, rs_g = g\<rparr>)))"

text \<open>
  Lines 176-229: construct, fit, score. Any exception of the engine ends the run with
  exit code 1. The result is the p-value; the record built around it is not modelled.
\<close>

definition run_structlmm :: "engine \<Rightarrow> run_state \<Rightarrow> (error + real) \<times> engine_call list" where
  "run_structlmm eng st =
     (let y = rs_y st; M = rs_M st; E = rs_E st; g = rs_g st
      in if \<not> construct_ok eng y M E then (Inl ModelFittingError, [Construct y M E])
         else if \<not> fit_ok eng y M E then (Inl ModelFittingError, [Construct y M E, Fit])
         else case score eng y M E g of
                None \<Rightarrow> (Inl ModelFittingError, [Construct y M E, Fit, Score g])
              | Some pv \<Rightarrow> (Inr pv, [Construct y M E, Fit, Score g]))"

text \<open>Lines 166-169, then the engine.\<close>

definition check_sizes_and_run :: "engine \<Rightarrow> run_state \<Rightarrow> (error + real) \<times> engine_call list" where
  "check_sizes_and_run eng st =
     (let y = rs_y st; M = rs_M st; E = rs_E st; g = rs_g st
      in if \<not> (length y = length E \<and> length E = length M \<and> length M = length g)
         then (Inl (DimensionMismatchError (length y) (length E) (length M) (length g)), [])
         else run_structlmm eng st)"

definition main :: "engine \<Rightarrow> inputs \<Rightarrow> (error + real) \<times> engine_call list" where
  "main eng inp =
     (case assemble inp of
        Inl e \<Rightarrow> (Inl e, [])
      | Inr st \<Rightarrow> check_sizes_and_run eng st)"

definition sizes_agree :: "run_state \<Rightarrow> bool" where
  \<comment> \<open>The four sample counts are pairwise equal.\<close>
  "sizes_agree st =
     (let a = length (rs_y st); b = length (rs_E st); c = length (rs_M st); d = length (rs_g st)
      in a = b \<and> a = c \<and> a = d \<and> b = c \<and> b = d \<and> c = d)"

section \<open>The notebook scripts\<close>

text \<open>
  \<^verbatim>\<open>Method2.py\<close>, lines 28-34. \<open>PHE_y\<close> is \<open>PHE[SUBSET].to_numpy()\<close>, \<open>HAPS\<close> and \<open>SNV\<close> are
  the tables read in lines 25 and 27.
\<close>

definition iloc_col1 :: "'a dataframe \<Rightarrow> error + 'a list" where
  \<comment> \<open>\<^verbatim>\<open>df.iloc[:, 1].to_numpy()\<close>\<close>
  "iloc_col1 df =
     (if length (df_columns df) < 2 then Inl PandasIndexError else Inr (column (df_rows df) 1))"

definition method2 ::
  "engine \<Rightarrow> real list \<Rightarrow> real list list \<Rightarrow> int dataframe \<Rightarrow> (error + real) \<times> engine_call list" where
  "method2 eng PHE_y HAPS SNV =
     (let y = PHE_y;
          E = iloc_from1 HAPS
      in case np_concatenate_axis1 (np_ones (length E)) E of
           Inl e \<Rightarrow> (Inl e, [])
         | Inr M \<Rightarrow>
             (case iloc_col1 SNV of
                Inl e \<Rightarrow> (Inl e, [])
              | Inr g \<Rightarrow>
                  run_structlmm eng
                    \<lparr>rs_y = map Fin y, rs_E = map (map Fin) E, rs_M = map (map Fin) M, rs_g = g\<rparr>))"

text \<open>\<^verbatim>\<open>WorkingLMMscript.py\<close>, lines 40-118.\<close>

definition working_M :: "npfloat list list \<Rightarrow> error + npfloat list list" where
  \<comment> \<open>Line 74: \<^verbatim>\<open>M = np.concatenate([np.ones((E.shape[0], 1)), E], axis=1)\<close>\<close>
  "working_M E = np_concatenate_axis1 (map (map Fin) (np_ones (length E))) E"

definition working ::
  "engine \<Rightarrow> real list \<Rightarrow> real list list \<Rightarrow> int dataframe \<Rightarrow> (error + real) \<times> engine_call list" where
  "working eng PHE_y HAPS SNV =
     (let y = working_standardize_y PHE_y;
          E = iloc_from1 HAPS;
          E = standardize_columns E;
          E = scale_columns E
      in case working_M E of
           Inl e \<Rightarrow> (Inl e, [])
         | Inr M \<Rightarrow>
             (case iloc_col1 SNV of
                Inl e \<Rightarrow> (Inl e, [])
              | Inr g \<Rightarrow>
                  (let g = ensure_minor_allele_coding g
                   in run_structlmm eng \<lparr>rs_y = y, rs_E = E, rs_M = M, rs_g = g\<rparr>)))"

section \<open>Auxiliary definitions\<close>


definition example_inputs :: inputs where
  \<comment> \<open>A small run of the command-line script: two samples, one PC, no covariates.\<close>
  "example_inputs =
     \<lparr>phenotype_column_arg = None,
      pheno_df = \<lparr>df_columns = [''id'', ''Phenotype(binary)''], df_rows = [[1, 0], [2, 2]]\<rparr>,
      pcs_E = [[0], [2]],
      cov_df = None,
      snv_df = \<lparr>df_columns = [''id'', ''snv''], df_rows = [[1, 0], [2, 1]]\<rparr>\<rparr>"

definition example_state :: run_state where
  "example_state =
     \<lparr>rs_y = [Fin (- 1), Fin 1], rs_E = [[Fin (- 1)], [Fin 1]],
      rs_M = [[Fin 1], [Fin 1]], rs_g = [0, 1]\<rparr>"

definition mismatch_inputs :: inputs where
  \<comment> \<open>The same run with a third row in the SNV table.\<close>
  "mismatch_inputs =
     \<lparr>phenotype_column_arg = None,
      pheno_df = \<lparr>df_columns = [''id'', ''Phenotype(binary)''], df_rows = [[1, 0], [2, 2]]\<rparr>,
      pcs_E = [[0], [2]],
      cov_df = None,
      snv_df = \<lparr>df_columns = [''id'', ''snv''], df_rows = [[1, 0], [2, 1], [3, 0]]\<rparr>\<rparr>"

definition mismatch_state :: run_state where
  "mismatch_state =
     \<lparr>rs_y = [Fin (- 1), Fin 1], rs_E = [[Fin (- 1)], [Fin 1]],
      rs_M = [[Fin 1], [Fin 1]], rs_g = [0, 1, 0]\<rparr>"


section \<open>Lemmas about the numerics\<close>




section \<open>Lemmas about the Standardizer\<close>












section \<open>Lemmas about the Allele Coder\<close>

lemma length_mask_assign:
  "length flipped = length geno \<Longrightarrow> length (mask_assign flipped geno v c) = length geno"
  by (simp add: mask_assign_def)

lemma nth_mask_assign:
  "length flipped = length geno \<Longrightarrow> i < length geno \<Longrightarrow>
   mask_assign flipped geno v c ! i = (if geno ! i = v then c else flipped ! i)"
  by (simp add: mask_assign_def)

lemma flipped_length:
  "length (mask_assign (mask_assign (mask_assign (zeros_like g) g 0 2) g 1 1) g 2 0) = length g"
  by (simp add: length_mask_assign zeros_like_def)

lemma flipped_nth:
  assumes "i < length g"
  shows "mask_assign (mask_assign (mask_assign (zeros_like g) g 0 2) g 1 1) g 2 0 ! i =
         (if g ! i = 2 then 0 else if g ! i = 1 then 1 else if g ! i = 0 then 2 else 0)"
  using assms by (simp add: nth_mask_assign length_mask_assign zeros_like_def)

lemma flipped_eq_map:
  "mask_assign (mask_assign (mask_assign (zeros_like g) g 0 2) g 1 1) g 2 0 =
   map (\<lambda>x. if x = 2 then 0 else if x = 1 then 1 else if x = 0 then 2 else 0) g"
  by (rule nth_equalityI) (simp_all add: flipped_length flipped_nth)

lemma coder_flip:
  "np_count g 0 < np_count g 2 \<Longrightarrow>
   ensure_minor_allele_coding g =
   map (\<lambda>x. if x = 2 then 0 else if x = 1 then 1 else if x = 0 then 2 else 0) g"
  by (simp add: ensure_minor_allele_coding_def Let_def flipped_eq_map)

lemma coder_keep:
  "\<not> np_count g 0 < np_count g 2 \<Longrightarrow> ensure_minor_allele_coding g = g"
  by (simp add: ensure_minor_allele_coding_def Let_def)

lemma count_zero_after_flip:
  "np_count g 2 \<le>
   np_count (map (\<lambda>x. if x = 2 then 0 else if x = 1 then 1 else if x = 0 then 2 else 0) g) 0"
  by (induction g) (simp_all add: np_count_def)

lemma count_two_after_flip:
  "np_count (map (\<lambda>x. if x = 2 then 0 else if x = 1 then 1 else if x = 0 then 2 else 0) g) 2 =
   np_count g 0"
  by (induction g) (simp_all add: np_count_def)

section \<open>Lemmas about the scripts\<close>

lemma str_contains_sublist: "str_contains sub s = sublist sub s"
  by (induction s) (simp_all add: sublist_Cons_right)

lemma first_match:
  "\<exists>x \<in> set xs. P x \<Longrightarrow>
   \<exists>i < length xs. P (xs ! i) \<and> (\<forall>j < i. \<not> P (xs ! j)) \<and> hd (filter P xs) = xs ! i"
proof (induction xs)
  case Nil
  then show ?case by simp
next
  case (Cons x xs)
  show ?case
  proof (cases "P x")
    case True
    then have "P ((x # xs) ! 0) \<and> (\<forall>j < 0. \<not> P ((x # xs) ! j)) \<and>
               hd (filter P (x # xs)) = (x # xs) ! 0"
      by simp
    then show ?thesis by blast
  next
    case False
    with Cons.prems have "\<exists>x \<in> set xs. P x" by simp
    from Cons.IH[OF this] obtain i where i: "i < length xs" "P (xs ! i)"
      "\<forall>j < i. \<not> P (xs ! j)" "hd (filter P xs) = xs ! i"
      by blast
    have "\<forall>j < Suc i. \<not> P ((x # xs) ! j)"
      using False i(3) by (auto simp: less_Suc_eq_0_disj)
    with i False have "Suc i < length (x # xs) \<and> P ((x # xs) ! Suc i) \<and>
        (\<forall>j < Suc i. \<not> P ((x # xs) ! j)) \<and> hd (filter P (x # xs)) = (x # xs) ! Suc i"
      by simp
    then show ?thesis by blast
  qed
qed

lemma np_concatenate_ones:
  "length B = n \<Longrightarrow> np_concatenate_axis1 (replicate n [c]) B = Inr (map (\<lambda>r. c # r) B)"
  by (auto simp: np_concatenate_axis1_def intro!: nth_equalityI)

lemma create_covariate_matrix_Inr:
  assumes "create_covariate_matrix n c = Inr M"
  shows "length M = n \<and> column M 0 = replicate n 1"
proof (cases c)
  case None
  with assms have "M = replicate n [1]"
    by (simp add: create_covariate_matrix_def np_ones_def)
  then show ?thesis by (simp add: column_def)
next
  case (Some rows)
  with assms have len: "length rows = n"
    by (simp add: create_covariate_matrix_def np_ones_def iloc_from1_def Let_def
          np_concatenate_axis1_def split: if_splits)
  then have "np_concatenate_axis1 (replicate n [1]) (map tl rows) = Inr (map (\<lambda>r. 1 # r) (map tl rows))"
    by (simp add: np_concatenate_ones)
  with assms Some have "M = map (\<lambda>r. 1 # r) (map tl rows)"
    by (simp add: create_covariate_matrix_def np_ones_def iloc_from1_def Let_def)
  with len show ?thesis
    by (simp add: column_def comp_def map_replicate_const)
qed

lemma assemble_Inr:
  assumes "assemble inp = Inr st"
  shows "\<exists>col M.
           resolve_phenotype_column (phenotype_column_arg inp) (df_columns (pheno_df inp)) = Inr col \<and>
           col \<in> set (df_columns (pheno_df inp)) \<and>
           rs_y st = standardize_phenotype (df_column (pheno_df inp) col) \<and>
           rs_E st = scale_columns (standardize_columns (pcs_E inp)) \<and>
           create_covariate_matrix (length (rs_y st)) (cov_df inp) = Inr M \<and>
           rs_M st = map (map Fin) M \<and>
           2 \<le> length (df_columns (snv_df inp)) \<and>
           rs_g st = ensure_minor_allele_coding (column (df_rows (snv_df inp)) 1)"
  using assms
  by (auto simp: assemble_def Let_def split: sum.splits if_splits)

lemma sizes_agree_chain:
  "sizes_agree st \<longleftrightarrow>
   (length (rs_y st) = length (rs_E st) \<and> length (rs_E st) = length (rs_M st) \<and>
    length (rs_M st) = length (rs_g st))"
  by (auto simp: sizes_agree_def Let_def)

lemma run_structlmm_first_call:
  "snd (run_structlmm eng st) \<noteq> [] \<and>
   hd (snd (run_structlmm eng st)) = Construct (rs_y st) (rs_M st) (rs_E st)"
  by (simp add: run_structlmm_def Let_def split: option.splits)

lemma lower_phenotype_binary: "lower ''Phenotype(binary)'' = ''phenotype(binary)''"
  by (simp add: lower_def lower_char_def)

lemma example_mean: "np_mean [0, 2] = 1"
  by (simp add: np_mean_def)

lemma example_std: "np_std [0, 2] = 1"
  by (simp add: np_std_def np_mean_def)

lemma example_assemble: "assemble example_inputs = Inr example_state"
  by (simp add: assemble_def example_inputs_def example_state_def resolve_phenotype_column_def
        guess_phenotype_column_def lower_phenotype_binary lower_def Let_def df_column_def
        column_def standardize_phenotype_def standardize_columns_def scale_columns_def
        column_means_def column_stds_def zero_to_one_def shape1_def example_mean example_std
        np_div_def create_covariate_matrix_def np_ones_def ensure_minor_allele_coding_def
        np_count_def)

lemma mismatch_assemble: "assemble mismatch_inputs = Inr mismatch_state"
  by (simp add: assemble_def mismatch_inputs_def mismatch_state_def resolve_phenotype_column_def
        guess_phenotype_column_def lower_phenotype_binary lower_def Let_def df_column_def
        column_def standardize_phenotype_def standardize_columns_def scale_columns_def
        column_means_def column_stds_def zero_to_one_def shape1_def example_mean example_std
        np_div_def create_covariate_matrix_def np_ones_def ensure_minor_allele_coding_def
        np_count_def)



section \<open>Claims\<close>

subsection \<open>Consistency Validator\<close>

text \<open>
  Claim C1, as stated, asks that every script checks the four sample counts before the
  engine is called. \<^verbatim>\<open>Method2.py\<close> and \<^verbatim>\<open>WorkingLMMscript.py\<close> make no such check: with
  a response of length 2 and tables of one row each of them constructs, fits and
  scores the engine.
\<close>

theorem notebook_scripts_no_size_check:
  "method2 (const_engine (1/2)) [1, 2] [[7, 3]]
     \<lparr>df_columns = [''id'', ''snv''], df_rows = [[1, 0]]\<rparr> =
   (Inr (1/2), [Construct [Fin 1, Fin 2] [[Fin 1, Fin 3]] [[Fin 3]], Fit, Score [0]]) \<and>
   working (const_engine (1/2)) [0, 2] [[9, 5]]
     \<lparr>df_columns = [''id'', ''snv''], df_rows = [[1, 0]]\<rparr> =
   (Inr (1/2), [Construct [Fin (- 1), Fin 1] [[Fin 1, Fin 0]] [[Fin 0]], Fit, Score [0]]) \<and>
   length [Fin 1, Fin 2] \<noteq> length [[Fin 3]] \<and>
   length [Fin (- 1), Fin 1] \<noteq> length [[Fin 0]]"
proof -
  have m: "method2 (const_engine (1/2)) [1, 2] [[7, 3]]
     \<lparr>df_columns = [''id'', ''snv''], df_rows = [[1, 0]]\<rparr> =
   (Inr (1/2), [Construct [Fin 1, Fin 2] [[Fin 1, Fin 3]] [[Fin 3]], Fit, Score [0]])"
    by (simp add: method2_def iloc_from1_def np_ones_def np_concatenate_axis1_def
          iloc_col1_def column_def run_structlmm_def const_engine_def Let_def)
  have y: "working_standardize_y [0, 2] = [Fin (- 1), Fin 1]"
    by (simp add: working_standardize_y_def np_mean_def np_std_def np_div_def Let_def)
  have E: "scale_columns (standardize_columns [[5]]) = [[Fin 0]]"
    by (simp add: standardize_columns_def scale_columns_def column_means_def column_stds_def
          zero_to_one_def shape1_def column_def Let_def np_mean_def np_std_def np_div_def)
  have g: "ensure_minor_allele_coding [0] = [0]"
    by (simp add: ensure_minor_allele_coding_def np_count_def Let_def)
  have w: "working (const_engine (1/2)) [0, 2] [[9, 5]]
     \<lparr>df_columns = [''id'', ''snv''], df_rows = [[1, 0]]\<rparr> =
   (Inr (1/2), [Construct [Fin (- 1), Fin 1] [[Fin 1, Fin 0]] [[Fin 0]], Fit, Score [0]])"
    by (simp add: working_def y iloc_from1_def E working_M_def np_ones_def
          np_concatenate_axis1_def iloc_col1_def column_def g run_structlmm_def
          const_engine_def Let_def)
  from m w show ?thesis by simp
qed

text \<open>
  Claim C1, amended to the command-line script: for every run state that \<^verbatim>\<open>main\<close>
  assembles, \<^verbatim>\<open>main\<close> compares \<open>len(y)\<close>, the row count of \<open>E\<close>, the row count of \<open>M\<close> and
  \<open>len(g)\<close> before the engine is constructed. If any two of them differ, the run ends
  with the dimension-mismatch error carrying the four lengths and the engine is not
  called; if they agree, the engine is constructed with the assembled arrays. Whenever
  \<^verbatim>\<open>main\<close> calls the engine at all, the assembled arrays passed this check.
\<close>

theorem main_checks_sizes_before_engine:
  "(assemble inp = Inr st \<longrightarrow>
      (\<not> sizes_agree st \<longrightarrow>
         main eng inp =
           (Inl (DimensionMismatchError (length (rs_y st)) (length (rs_E st))
                  (length (rs_M st)) (length (rs_g st))), [])) \<and>
      (sizes_agree st \<longrightarrow>
         main eng inp = run_structlmm eng st \<and>
         hd (snd (main eng inp)) = Construct (rs_y st) (rs_M st) (rs_E st))) \<and>
   (snd (main eng inp) \<noteq> [] \<longrightarrow>
      (\<exists>st'. assemble inp = Inr st' \<and> sizes_agree st' \<and> main eng inp = run_structlmm eng st'))"
proof (intro conjI impI)
  assume "assemble inp = Inr st" and "\<not> sizes_agree st"
  then show "main eng inp =
        (Inl (DimensionMismatchError (length (rs_y st)) (length (rs_E st))
               (length (rs_M st)) (length (rs_g st))), [])"
    by (simp add: main_def sizes_agree_chain check_sizes_and_run_def Let_def)
next
  assume a: "assemble inp = Inr st" and b: "sizes_agree st"
  then show run: "main eng inp = run_structlmm eng st"
    by (simp add: main_def sizes_agree_chain check_sizes_and_run_def Let_def)
  show "hd (snd (main eng inp)) = Construct (rs_y st) (rs_M st) (rs_E st)"
    by (simp add: run run_structlmm_first_call)
next
  assume calls: "snd (main eng inp) \<noteq> []"
  then obtain st' where st': "assemble inp = Inr st'"
    by (cases "assemble inp") (simp_all add: main_def)
  with calls have run: "snd (check_sizes_and_run eng st') \<noteq> []"
    by (simp add: main_def)
  have agree: "sizes_agree st'"
  proof (rule ccontr)
    assume "\<not> sizes_agree st'"
    then have "snd (check_sizes_and_run eng st') = []"
      by (simp add: sizes_agree_chain check_sizes_and_run_def Let_def)
    with run show False by simp
  qed
  then have "main eng inp = run_structlmm eng st'"
    using st' by (simp add: main_def sizes_agree_chain check_sizes_and_run_def Let_def)
  with st' agree
  show "\<exists>st'. assemble inp = Inr st' \<and> sizes_agree st' \<and> main eng inp = run_structlmm eng st'"
    by blast
qed

theorem main_checks_sizes_before_engine_witness:
  "assemble mismatch_inputs = Inr mismatch_state \<and>
   main (const_engine (1/2)) mismatch_inputs = (Inl (DimensionMismatchError 2 2 2 3), []) \<and>
   assemble example_inputs = Inr example_state \<and>
   main (const_engine (1/2)) example_inputs =
     (Inr (1/2), [Construct [Fin (- 1), Fin 1] [[Fin 1], [Fin 1]] [[Fin (- 1)], [Fin 1]], Fit,
                  Score [0, 1]]) \<and>
   (\<exists>st'. assemble example_inputs = Inr st' \<and> sizes_agree st')"
proof -
  have ns: "\<not> sizes_agree mismatch_state"
    by (simp add: sizes_agree_def mismatch_state_def)
  note m1 = main_checks_sizes_before_engine
    [of mismatch_inputs mismatch_state "const_engine (1/2)",
     THEN conjunct1, THEN mp, OF mismatch_assemble, THEN conjunct1, THEN mp, OF ns]
  have a: "main (const_engine (1/2)) mismatch_inputs = (Inl (DimensionMismatchError 2 2 2 3), [])"
    by (simp only: m1) (simp add: mismatch_state_def)
  have ag: "sizes_agree example_state"
    by (simp add: sizes_agree_def example_state_def)
  note e1 = main_checks_sizes_before_engine
    [of example_inputs example_state "const_engine (1/2)",
     THEN conjunct1, THEN mp, OF example_assemble, THEN conjunct2, THEN mp, OF ag,
     THEN conjunct1]
  have b: "main (const_engine (1/2)) example_inputs =
     (Inr (1/2), [Construct [Fin (- 1), Fin 1] [[Fin 1], [Fin 1]] [[Fin (- 1)], [Fin 1]], Fit,
                  Score [0, 1]])"
    by (simp only: e1) (simp add: run_structlmm_def Let_def example_state_def const_engine_def)
  have calls: "snd (main (const_engine (1/2)) example_inputs) \<noteq> []"
    by (simp only: b) simp
  note c1 = main_checks_sizes_before_engine
    [of example_inputs example_state "const_engine (1/2)", THEN conjunct2, THEN mp, OF calls]
  from c1 obtain st' where "assemble example_inputs = Inr st'" and "sizes_agree st'"
    by (elim exE conjE)
  then have c: "\<exists>st'. assemble example_inputs = Inr st' \<and> sizes_agree st'"
    by (intro exI conjI)
  show ?thesis
    by (intro conjI mismatch_assemble a example_assemble b c)
qed

subsection \<open>Allele Coder\<close>

text \<open>
  Claim C2. The coder counts the entries equal to 0 and the entries equal to 2. When
  the count of 2s strictly exceeds the count of 0s, the result has the length of the
  input, holds 2 wherever the input holds 0, 0 wherever the input holds 2 and 1 wherever
  the input holds 1; on a genotype vector (all entries among 0, 1, 2) it is exactly the
  input remapped as the specification words it, and it differs from the input.  In
  every other case the result is the input itself.
\<close>

theorem ensure_minor_allele_coding_flip_iff:
  "(np_count g 0 < np_count g 2 \<longrightarrow>
      length (ensure_minor_allele_coding g) = length g \<and>
      (\<forall>i < length g.
         (g ! i = 0 \<longrightarrow> ensure_minor_allele_coding g ! i = 2) \<and>
         (g ! i = 2 \<longrightarrow> ensure_minor_allele_coding g ! i = 0) \<and>
         (g ! i = 1 \<longrightarrow> ensure_minor_allele_coding g ! i = 1)) \<and>
      (set g \<subseteq> {0, 1, 2} \<longrightarrow> ensure_minor_allele_coding g = map remap_spec g) \<and>
      ensure_minor_allele_coding g \<noteq> g) \<and>
   (\<not> np_count g 0 < np_count g 2 \<longrightarrow> ensure_minor_allele_coding g = g)"
proof (intro conjI impI)
  assume flip: "np_count g 0 < np_count g 2"
  let ?f = "\<lambda>x::int. if x = 2 then 0 else if x = 1 then 1 else if x = 0 then 2 else (0::int)"
  have out: "ensure_minor_allele_coding g = map ?f g"
    using flip by (rule coder_flip)
  show "length (ensure_minor_allele_coding g) = length g"
    by (simp add: out)
  show "\<forall>i < length g.
         (g ! i = 0 \<longrightarrow> ensure_minor_allele_coding g ! i = 2) \<and>
         (g ! i = 2 \<longrightarrow> ensure_minor_allele_coding g ! i = 0) \<and>
         (g ! i = 1 \<longrightarrow> ensure_minor_allele_coding g ! i = 1)"
    by (simp add: out)
  show "ensure_minor_allele_coding g = map remap_spec g" if dom: "set g \<subseteq> {0, 1, 2}"
  proof -
    have "?f x = remap_spec x" if "x \<in> set g" for x
      using that dom by (auto simp: remap_spec_def)
    then show ?thesis by (simp add: out)
  qed
  show "ensure_minor_allele_coding g \<noteq> g"
  proof
    assume same: "ensure_minor_allele_coding g = g"
    have "np_count g 2 \<le> np_count (map ?f g) 0" by (rule count_zero_after_flip)
    then have "np_count g 2 \<le> np_count g 0" using same out by simp
    then show False using flip by simp
  qed
next
  assume "\<not> np_count g 0 < np_count g 2"
  then show "ensure_minor_allele_coding g = g" by (rule coder_keep)
qed

theorem ensure_minor_allele_coding_flip_iff_witness:
  "ensure_minor_allele_coding [0, 0, 0, 1, 2, 2, 2, 2, 2] = [2, 2, 2, 1, 0, 0, 0, 0, 0] \<and>
   ensure_minor_allele_coding [0, 0, 0, 1, 1, 2] = [0, 0, 0, 1, 1, 2]"
  using ensure_minor_allele_coding_flip_iff [of "[0, 0, 0, 1, 2, 2, 2, 2, 2]"]
        ensure_minor_allele_coding_flip_iff [of "[0, 0, 0, 1, 1, 2]"]
  by (simp add: np_count_def remap_spec_def)

text \<open>
  Claim C8. When the flip triggers, the flipped vector has strictly more 0s than 2s,
  and the coder applied to it returns it unchanged.
\<close>

theorem ensure_minor_allele_coding_stable:
  "np_count g 0 < np_count g 2 \<Longrightarrow>
   np_count (ensure_minor_allele_coding g) 2 < np_count (ensure_minor_allele_coding g) 0 \<and>
   ensure_minor_allele_coding (ensure_minor_allele_coding g) = ensure_minor_allele_coding g"
proof -
  assume flip: "np_count g 0 < np_count g 2"
  let ?f = "\<lambda>x::int. if x = 2 then 0 else if x = 1 then 1 else if x = 0 then 2 else (0::int)"
  have out: "ensure_minor_allele_coding g = map ?f g"
    using flip by (rule coder_flip)
  have "np_count (map ?f g) 2 = np_count g 0" by (rule count_two_after_flip)
  moreover have "np_count g 2 \<le> np_count (map ?f g) 0" by (rule count_zero_after_flip)
  ultimately have more: "np_count (map ?f g) 2 < np_count (map ?f g) 0"
    using flip by linarith
  then have "\<not> np_count (map ?f g) 0 < np_count (map ?f g) 2" by simp
  then have "ensure_minor_allele_coding (map ?f g) = map ?f g" by (rule coder_keep)
  with more show ?thesis by (simp add: out)
qed

theorem ensure_minor_allele_coding_stable_witness:
  "np_count [0, 0, 0, 1, 2, 2, 2, 2, 2] 0 < np_count [0, 0, 0, 1, 2, 2, 2, 2, 2] 2 \<and>
   np_count (ensure_minor_allele_coding [0, 0, 0, 1, 2, 2, 2, 2, 2]) 2
     < np_count (ensure_minor_allele_coding [0, 0, 0, 1, 2, 2, 2, 2, 2]) 0 \<and>
   ensure_minor_allele_coding (ensure_minor_allele_coding [0, 0, 0, 1, 2, 2, 2, 2, 2])
     = ensure_minor_allele_coding [0, 0, 0, 1, 2, 2, 2, 2, 2]"
proof -
  have h: "np_count [0, 0, 0, 1, 2, 2, 2, 2, 2] 0 < np_count [0, 0, 0, 1, 2, 2, 2, 2, 2] 2"
    by (simp add: np_count_def)
  show ?thesis
    using h ensure_minor_allele_coding_stable [OF h] by simp
qed

text \<open>
  Claim C10. When the flip triggers, the result has the length of the input, and every
  position whose input entry is none of 0, 1, 2 holds 0 in the result: the result
  starts as an all-zeros vector and only positions holding 0, 1 or 2 are assigned.
\<close>

theorem ensure_minor_allele_coding_other_codes:
  "np_count g 0 < np_count g 2 \<Longrightarrow>
   length (ensure_minor_allele_coding g) = length g \<and>
   (\<forall>i < length g. g ! i \<notin> {0, 1, 2} \<longrightarrow> ensure_minor_allele_coding g ! i = 0)"
  by (simp add: coder_flip)

theorem ensure_minor_allele_coding_other_codes_witness:
  "np_count [2, 2, -1, 3, 0] 0 < np_count [2, 2, -1, 3, 0] 2 \<and>
   length (ensure_minor_allele_coding [2, 2, -1, 3, 0]) = 5 \<and>
   ensure_minor_allele_coding [2, 2, -1, 3, 0] ! 2 = 0 \<and>
   ensure_minor_allele_coding [2, 2, -1, 3, 0] ! 3 = 0"
proof -
  have h: "np_count [2, 2, -1, 3, 0] 0 < np_count [2, 2, -1, 3, 0] 2"
    by (simp add: np_count_def)
  have "(2::nat) < length [2, 2, -1, 3, 0::int]" "(3::nat) < length [2, 2, -1, 3, 0::int]"
    by simp_all
  then show ?thesis
    using h ensure_minor_allele_coding_other_codes [OF h] by auto
qed

subsection \<open>Background matrix\<close>




subsection \<open>Column Resolver\<close>

text \<open>
  Claim C6. Without a column given on the command line, the resolver selects the
  first column, in table order, whose lower-cased name contains "phenotype"; when no
  column matches and the table has more than one column it selects the second column;
  when no column matches and the table has at most one column it fails with the
  column-resolution error.
\<close>

theorem resolve_phenotype_column_order:
  "((\<exists>c \<in> set cols. sublist ''phenotype'' (lower c)) \<longrightarrow>
      (\<exists>i < length cols.
         sublist ''phenotype'' (lower (cols ! i)) \<and>
         (\<forall>j < i. \<not> sublist ''phenotype'' (lower (cols ! j))) \<and>
         resolve_phenotype_column None cols = Inr (cols ! i))) \<and>
   ((\<forall>c \<in> set cols. \<not> sublist ''phenotype'' (lower c)) \<and> 1 < length cols \<longrightarrow>
      resolve_phenotype_column None cols = Inr (cols ! 1)) \<and>
   ((\<forall>c \<in> set cols. \<not> sublist ''phenotype'' (lower c)) \<and> length cols \<le> 1 \<longrightarrow>
      resolve_phenotype_column None cols = Inl ColumnResolutionError)"
proof (intro conjI impI)
  let ?P = "\<lambda>col. str_contains ''phenotype'' (lower col)"
  assume "\<exists>c \<in> set cols. sublist ''phenotype'' (lower c)"
  then have ex: "\<exists>c \<in> set cols. ?P c" by (simp add: str_contains_sublist)
  from first_match[of cols ?P, OF ex] obtain i where
    i: "i < length cols" "?P (cols ! i)" "\<forall>j < i. \<not> ?P (cols ! j)"
       "hd (filter ?P cols) = cols ! i"
    by blast
  from ex have "filter ?P cols \<noteq> []" by (simp add: filter_empty_conv)
  then have "resolve_phenotype_column None cols = Inr (cols ! i)"
    using i(4) by (simp add: resolve_phenotype_column_def guess_phenotype_column_def Let_def)
  with i(1-3) show "\<exists>i < length cols.
         sublist ''phenotype'' (lower (cols ! i)) \<and>
         (\<forall>j < i. \<not> sublist ''phenotype'' (lower (cols ! j))) \<and>
         resolve_phenotype_column None cols = Inr (cols ! i)"
    by (auto simp: str_contains_sublist)
next
  assume "(\<forall>c \<in> set cols. \<not> sublist ''phenotype'' (lower c)) \<and> 1 < length cols"
  then have "filter (\<lambda>col. str_contains ''phenotype'' (lower col)) cols = []" "1 < length cols"
    by (simp_all add: filter_empty_conv str_contains_sublist)
  then show "resolve_phenotype_column None cols = Inr (cols ! 1)"
    by (simp add: resolve_phenotype_column_def guess_phenotype_column_def Let_def)
next
  assume "(\<forall>c \<in> set cols. \<not> sublist ''phenotype'' (lower c)) \<and> length cols \<le> 1"
  then have "filter (\<lambda>col. str_contains ''phenotype'' (lower col)) cols = []"
    "\<not> 1 < length cols"
    by (simp_all add: filter_empty_conv str_contains_sublist)
  then show "resolve_phenotype_column None cols = Inl ColumnResolutionError"
    by (simp add: resolve_phenotype_column_def guess_phenotype_column_def Let_def)
qed

theorem resolve_phenotype_column_order_witness:
  "resolve_phenotype_column None [''id'', ''Phenotype(binary)''] = Inr ''Phenotype(binary)'' \<and>
   resolve_phenotype_column None [''id'', ''value''] = Inr ''value'' \<and>
   resolve_phenotype_column None [''id''] = Inl ColumnResolutionError"
proof -
  have id: "\<not> sublist ''phenotype'' (lower ''id'')"
    by (simp add: str_contains_sublist[symmetric] lower_def lower_char_def)
  have val: "\<not> sublist ''phenotype'' (lower ''value'')"
    by (simp add: str_contains_sublist[symmetric] lower_def lower_char_def)
  have bin: "sublist ''phenotype'' (lower ''Phenotype(binary)'')"
    by (simp add: str_contains_sublist[symmetric] lower_phenotype_binary)
  have "\<exists>c \<in> set [''id'', ''Phenotype(binary)'']. sublist ''phenotype'' (lower c)"
    using bin by simp
  with resolve_phenotype_column_order [of "[''id'', ''Phenotype(binary)'']"]
  obtain i where i: "i < length [''id'', ''Phenotype(binary)'']"
    "sublist ''phenotype'' (lower ([''id'', ''Phenotype(binary)''] ! i))"
    "resolve_phenotype_column None [''id'', ''Phenotype(binary)'']
       = Inr ([''id'', ''Phenotype(binary)''] ! i)"
    by blast
  have "i = 1"
  proof (cases i)
    case 0
    with i(2) id show ?thesis by simp
  next
    case (Suc k)
    with i(1) show ?thesis by simp
  qed
  with i(3) have a: "resolve_phenotype_column None [''id'', ''Phenotype(binary)'']
                       = Inr ''Phenotype(binary)''"
    by simp
  have "(\<forall>c \<in> set [''id'', ''value'']. \<not> sublist ''phenotype'' (lower c)) \<and>
        1 < length [''id'', ''value'']"
    using id val by simp
  with resolve_phenotype_column_order [of "[''id'', ''value'']"]
  have b: "resolve_phenotype_column None [''id'', ''value''] = Inr ''value''"
    by simp
  have "(\<forall>c \<in> set [''id'']. \<not> sublist ''phenotype'' (lower c)) \<and> length [''id''] \<le> 1"
    using id by simp
  with resolve_phenotype_column_order [of "[''id'']"]
  have c: "resolve_phenotype_column None [''id''] = Inl ColumnResolutionError"
    by simp
  from a b c show ?thesis by blast
qed

subsection \<open>Design Assembler\<close>

text \<open>
  Claim C7. For every sample count \<open>n\<close>: without a covariate file \<open>M\<close> is the \<open>n\<close> by 1
  column of ones; with a covariate table of \<open>n\<close> rows \<open>M\<close> is, row by row, a one followed
  by the covariates of that row without the first (identifier) column, unchanged;
  every \<open>M\<close> that is produced has \<open>n\<close> rows and an all-ones first column. This is the
  matrix \<^verbatim>\<open>main\<close> hands to the engine. Line 74 of \<^verbatim>\<open>WorkingLMMscript.py\<close> likewise puts
  a column of ones in front of its covariates, the background matrix.
\<close>

theorem create_covariate_matrix_ones_first:
  "create_covariate_matrix n None = Inr (replicate n [1]) \<and>
   (length rows = n \<longrightarrow>
      create_covariate_matrix n (Some rows) = Inr (map (\<lambda>r. 1 # tl r) rows)) \<and>
   (create_covariate_matrix n c = Inr M \<longrightarrow> length M = n \<and> column M 0 = replicate n 1) \<and>
   (assemble inp = Inr st \<longrightarrow>
      (\<exists>M'. create_covariate_matrix (length (rs_y st)) (cov_df inp) = Inr M' \<and>
            rs_M st = map (map Fin) M')) \<and>
   working_M E = Inr (map (\<lambda>r. Fin 1 # r) E)"
proof (intro conjI impI)
  show "create_covariate_matrix n None = Inr (replicate n [1])"
    by (simp add: create_covariate_matrix_def np_ones_def)
  show "create_covariate_matrix n (Some rows) = Inr (map (\<lambda>r. 1 # tl r) rows)"
    if "length rows = n"
  proof -
    have "np_concatenate_axis1 (replicate n [1]) (map tl rows) =
          Inr (map (\<lambda>r. 1 # r) (map tl rows))"
      using that by (simp add: np_concatenate_ones)
    then show ?thesis
      by (simp add: create_covariate_matrix_def np_ones_def iloc_from1_def Let_def comp_def)
  qed
  show "length M = n" if "create_covariate_matrix n c = Inr M"
    using create_covariate_matrix_Inr[OF that] by simp
  show "column M 0 = replicate n 1" if "create_covariate_matrix n c = Inr M"
    using create_covariate_matrix_Inr[OF that] by simp
  show "\<exists>M'. create_covariate_matrix (length (rs_y st)) (cov_df inp) = Inr M' \<and>
            rs_M st = map (map Fin) M'" if "assemble inp = Inr st"
    using assemble_Inr[OF that] by blast
  have "np_concatenate_axis1 (replicate (length E) [Fin 1]) E = Inr (map (\<lambda>r. Fin 1 # r) E)"
    by (simp add: np_concatenate_ones)
  then show "working_M E = Inr (map (\<lambda>r. Fin 1 # r) E)"
    by (simp add: working_M_def np_ones_def)
qed

theorem create_covariate_matrix_ones_first_witness:
  "create_covariate_matrix 2 None = Inr [[1], [1]] \<and>
   create_covariate_matrix 2 (Some [[7, 3, 4], [8, 5, 6]]) = Inr [[1, 3, 4], [1, 5, 6]] \<and>
   column [[1, 3, 4], [1, 5, 6 :: real]] 0 = [1, 1] \<and>
   (\<exists>M'. create_covariate_matrix (length (rs_y example_state)) (cov_df example_inputs) = Inr M' \<and>
         rs_M example_state = map (map Fin) M')"
proof -
  have r2: "replicate 2 x = [x, x]" for x :: "'a"
    by (simp add: numeral_2_eq_2)
  have len: "length [[7, 3, 4], [8, 5, 6 :: real]] = 2" by simp
  have a: "create_covariate_matrix 2 None = Inr [[1], [1]]"
    using create_covariate_matrix_ones_first [of 2] by (simp add: r2)
  have b: "create_covariate_matrix 2 (Some [[7, 3, 4], [8, 5, 6]]) = Inr [[1, 3, 4], [1, 5, 6]]"
    using create_covariate_matrix_ones_first [of 2 "[[7, 3, 4], [8, 5, 6]]"] len by simp
  have c: "column [[1, 3, 4], [1, 5, 6 :: real]] 0 = [1, 1]"
    using create_covariate_matrix_ones_first
            [of 2 "[[7, 3, 4], [8, 5, 6]]" "Some [[7, 3, 4], [8, 5, 6]]" "[[1, 3, 4], [1, 5, 6]]"]
          b
    by (simp add: r2)
  have d: "\<exists>M'. create_covariate_matrix (length (rs_y example_state)) (cov_df example_inputs)
                  = Inr M' \<and> rs_M example_state = map (map Fin) M'"
    using create_covariate_matrix_ones_first [of _ _ _ _ example_inputs example_state]
          example_assemble
    by blast
  from a b c d show ?thesis by blast
qed

end
